theory Spec2Isabelle
  imports Main
begin

section \<open>JavaScript strings, errors and values\<close>

text \<open>
  Strings are lists of characters. \<open>str_includes\<close> is \<open>String.prototype.includes\<close>
  (case-sensitive substring test), \<open>split_on\<close> is \<open>String.prototype.split\<close> with a
  one-character separator; it never returns the empty list.
\<close>

fun startsWith :: "string \<Rightarrow> string \<Rightarrow> bool" where
  "startsWith s [] = True"
| "startsWith [] (c # t) = False"
| "startsWith (x # s) (c # t) = (x = c \<and> startsWith s t)"

fun str_includes :: "string \<Rightarrow> string \<Rightarrow> bool" where
  "str_includes [] t = (t = [])"
| "str_includes (x # s) t = (startsWith (x # s) t \<or> str_includes s t)"

fun split_on :: "char \<Rightarrow> string \<Rightarrow> string list" where
  "split_on c [] = [[]]"
| "split_on c (x # xs) =
     (if x = c then [] # split_on c xs
      else (case split_on c xs of
              [] \<Rightarrow> [[x]]
            | y # ys \<Rightarrow> (x # y) # ys))"

text \<open>\<open>xs[i]\<close> on a JavaScript array: \<open>undefined\<close> out of range.\<close>

fun index :: "'a list \<Rightarrow> nat \<Rightarrow> 'a option" where
  "index [] i = None"
| "index (x # xs) 0 = Some x"
| "index (x # xs) (Suc i) = index xs i"

text \<open>Decimal rendering of a non-negative integer (\<open>ToString\<close> of an array length).\<close>

definition digit :: "nat \<Rightarrow> char" where
  "digit d = char_of (48 + d)"

fun show_nat :: "nat \<Rightarrow> string" where
  "show_nat n = (if n < 10 then [digit n] else show_nat (n div 10) @ [digit (n mod 10)])"

declare show_nat.simps [simp del]

text \<open>
  \<open>String.prototype.trim\<close>: white space and line terminators are removed at both ends
  (the characters of the one-byte range: tab, line feed, vertical tab, form feed, carriage
  return, space, no-break space).
\<close>

definition is_space :: "char \<Rightarrow> bool" where
  "is_space c = (c \<in> set [CHR 0x09, CHR 0x0A, CHR 0x0B, CHR 0x0C, CHR 0x0D, CHR 0x20, CHR 0xA0])"

definition trim :: "string \<Rightarrow> string" where
  "trim s = rev (dropWhile is_space (rev (dropWhile is_space s)))"

text \<open>
  Thrown values are error objects: an \<open>Error\<close> created by the program, a
  \<open>TypeError\<close> or \<open>SyntaxError\<close> raised by the language, each with its message.
  A computation that may throw returns \<open>js_error + 'a\<close>, \<open>Inl\<close> the thrown error.
\<close>

datatype js_error = Error string | TypeError string | SyntaxError string

fun message :: "js_error \<Rightarrow> string" where
  "message (Error m) = m"
| "message (TypeError m) = m"
| "message (SyntaxError m) = m"

definition bind :: "js_error + 'a \<Rightarrow> ('a \<Rightarrow> js_error + 'b) \<Rightarrow> js_error + 'b" where
  "bind r f = (case r of Inl e \<Rightarrow> Inl e | Inr v \<Rightarrow> f v)"

text \<open>
  The values \<open>JSON.parse\<close> can return, and \<open>undefined\<close> for what a property read
  finds missing. Numbers are kept abstract (type \<open>'n\<close>); an object is the list of its own
  properties. What the platform does with a number, and \<open>JSON.parse\<close> itself, are taken
  as parameters: \<open>json_parse\<close> returns \<open>Inl m\<close> for a \<open>SyntaxError\<close> with message
  \<open>m\<close>.
\<close>

datatype 'n jsval =
    JUndefined
  | JNull
  | JBool bool
  | JNum 'n
  | JStr string
  | JArr "'n jsval list"
  | JObj "(string \<times> 'n jsval) list"

record 'n platform =
  num_to_string :: "'n \<Rightarrow> string"
  num_truthy :: "'n \<Rightarrow> bool"
  json_parse :: "string \<Rightarrow> string + 'n jsval"

fun nullish :: "'n jsval \<Rightarrow> bool" where
  "nullish JUndefined = True"
| "nullish JNull = True"
| "nullish _ = False"

fun truthy :: "'n platform \<Rightarrow> 'n jsval \<Rightarrow> bool" where
  "truthy pf JUndefined = False"
| "truthy pf JNull = False"
| "truthy pf (JBool b) = b"
| "truthy pf (JNum n) = num_truthy pf n"
| "truthy pf (JStr s) = (s \<noteq> [])"
| "truthy pf (JArr xs) = True"
| "truthy pf (JObj kvs) = True"


text \<open>
  \<open>v.k\<close> for a property name \<open>k\<close> that no prototype defines (every name this program
  reads is such a name): a \<open>TypeError\<close> on \<open>null\<close> and \<open>undefined\<close>, the own
  property of an object, \<open>undefined\<close> otherwise. \<open>v?.k\<close> is \<open>undefined\<close> on
  \<open>null\<close> and \<open>undefined\<close>. The messages of the language's own errors are those of
  the V8 engine.
\<close>

definition cannot_read :: "string \<Rightarrow> string \<Rightarrow> js_error" where
  "cannot_read what k =
     TypeError (''Cannot read properties of '' @ what @ '' (reading '' @ [CHR 0x27] @ k @ [CHR 0x27] @ '')'')"

fun own_property :: "'n jsval \<Rightarrow> string \<Rightarrow> 'n jsval" where
  "own_property (JObj kvs) k = (case map_of kvs k of None \<Rightarrow> JUndefined | Some v \<Rightarrow> v)"
| "own_property _ k = JUndefined"

fun member :: "'n jsval \<Rightarrow> string \<Rightarrow> js_error + 'n jsval" where
  "member JUndefined k = Inl (cannot_read ''undefined'' k)"
| "member JNull k = Inl (cannot_read ''null'' k)"
| "member v k = Inr (own_property v k)"

definition opt_member :: "'n jsval \<Rightarrow> string \<Rightarrow> 'n jsval" where
  "opt_member v k = (if nullish v then JUndefined else own_property v k)"

text \<open>
  \<open>ToString\<close>, as a template literal applies it, and \<open>Array.prototype.join\<close>. An
  array prints as its elements joined by a comma; \<open>join\<close> prints \<open>null\<close> and
  \<open>undefined\<close> elements as the empty string. A parsed object prints as
  \<open>[object Object]\<close>, unless it has an own property \<open>toString\<close>: that value is not
  callable, \<open>valueOf\<close> does not give a primitive either, and the conversion throws.
\<close>

definition cannot_convert :: js_error where
  "cannot_convert = TypeError ''Cannot convert object to primitive value''"

fun to_string :: "'n platform \<Rightarrow> 'n jsval \<Rightarrow> js_error + string"
  and join :: "'n platform \<Rightarrow> string \<Rightarrow> 'n jsval list \<Rightarrow> js_error + string"
  and element_string :: "'n platform \<Rightarrow> 'n jsval \<Rightarrow> js_error + string"
where
  "to_string pf JUndefined = Inr ''undefined''"
| "to_string pf JNull = Inr ''null''"
| "to_string pf (JBool b) = Inr (if b then ''true'' else ''false'')"
| "to_string pf (JNum n) = Inr (num_to_string pf n)"
| "to_string pf (JStr s) = Inr s"
| "to_string pf (JArr xs) = join pf '','' xs"
| "to_string pf (JObj kvs) =
     (if map_of kvs ''toString'' = None then Inr ''[object Object]'' else Inl cannot_convert)"
| "join pf sep [] = Inr []"
| "join pf sep [x] = element_string pf x"
| "join pf sep (x # y # ys) =
     (case element_string pf x of
        Inl e \<Rightarrow> Inl e
      | Inr a \<Rightarrow> (case join pf sep (y # ys) of
                   Inl e \<Rightarrow> Inl e
                 | Inr b \<Rightarrow> Inr (a @ sep @ b)))"
| "element_string pf x = (if nullish x then Inr [] else to_string pf x)"

definition or_default :: "'n platform \<Rightarrow> 'n jsval \<Rightarrow> string \<Rightarrow> js_error + string" where
  \<comment> \<open>\<open>${v || 'd'}\<close> inside a template literal\<close>
  "or_default pf v d = (if truthy pf v then to_string pf v else Inr d)"

definition array_or_empty :: "'n jsval \<Rightarrow> 'n jsval list" where
  \<comment> \<open>\<open>Array.isArray(v) ? v : []\<close>\<close>
  "array_or_empty v = (case v of JArr xs \<Rightarrow> xs | _ \<Rightarrow> [])"

definition join_or :: "'n platform \<Rightarrow> 'n jsval list \<Rightarrow> string \<Rightarrow> js_error + string" where
  \<comment> \<open>\<open>${xs.join(", ") || 'd'}\<close>\<close>
  "join_or pf xs d = bind (join pf '', '' xs) (\<lambda>s. Inr (if s = [] then d else s))"

section \<open>The data model (types.ts)\<close>

datatype Emotion = SHOCK | CURIOSITY | EXCITEMENT | FEAR | URGENCY

fun emotion_value :: "Emotion \<Rightarrow> string" where
  "emotion_value SHOCK = ''Shock''"
| "emotion_value CURIOSITY = ''Curiosity''"
| "emotion_value EXCITEMENT = ''Excitement''"
| "emotion_value FEAR = ''Fear''"
| "emotion_value URGENCY = ''Urgency''"

datatype AspectRatio = R16_9 | R9_16 | R1_1 | R4_3

fun ratio_value :: "AspectRatio \<Rightarrow> string" where
  "ratio_value R16_9 = ''16:9''"
| "ratio_value R9_16 = ''9:16''"
| "ratio_value R1_1 = ''1:1''"
| "ratio_value R4_3 = ''4:3''"

record ThumbnailImage =
  data :: string
  mimeType :: string

record ThumbnailRequest =
  title :: string
  niche :: string
  emotion :: Emotion
  ratio :: AspectRatio
  subjectDescription :: "string option"
  subjectImages :: "ThumbnailImage list"

text \<open>
  A \<open>ThumbnailDesign\<close> is whatever \<open>JSON.parse\<close> returned: the interface is a
  declaration the running program does not check.
\<close>

type_synonym 'n ThumbnailDesign = "'n jsval"

record 'n GenerationResult =
  strategy :: "'n ThumbnailDesign"
  imageUrl :: "string option"

section \<open>The provider interface\<close>

text \<open>
  The requests \<open>generateContent\<close> is given and the responses it returns, as far as the
  program builds and reads them. A provider is a function from the request to the thrown
  error or the response; each call of an operation below gets its own.
\<close>

record Blob =
  blob_data :: "string option"
  blob_mimeType :: "string option"

record Part =
  part_text :: "string option"
  inlineData :: "Blob option"

datatype schema = STRING | ARRAY schema | OBJECT "(string \<times> schema) list" "string list"

datatype gen_config = JsonResponse string schema | ImageConfig string

record request =
  model :: string
  contents :: "Part list"
  config :: gen_config

record Content =
  parts :: "Part list option"

record Candidate =
  content :: "Content option"

record response =
  candidates :: "Candidate list option"
  response_text :: "string option"

type_synonym provider = "request \<Rightarrow> js_error + response"

section \<open>The Strategy Synthesizer and the Image Renderer (services/geminiService.ts)\<close>

text \<open>
  The part every reference image becomes, in both operations: the data is
  \<open>img.data.split(',')[1]\<close>, the second of the comma-separated pieces, \<open>undefined\<close>
  (here \<open>None\<close>) when the data has no comma.
\<close>

definition inline_part :: "ThumbnailImage \<Rightarrow> Part" where
  "inline_part img =
     \<lparr>part_text = None,
      inlineData = Some \<lparr>blob_data = index (split_on (CHR '','') (data img)) 1,
                         blob_mimeType = Some (mimeType img)\<rparr>\<rparr>"

definition text_part :: "string \<Rightarrow> Part" where
  "text_part t = \<lparr>part_text = Some t, inlineData = None\<rparr>"

subsection \<open>generateStrategy\<close>

definition strategy_prompt :: "ThumbnailRequest \<Rightarrow> string" where
  \<open>strategy_prompt req =
       ''\<newline>''
     @ ''        ROLE: Professional YouTube Thumbnail Design AI (High-CTR specialist).\<newline>''
     @ ''        OBJECTIVE: Design a viral, click-optimized concept for ''
     @ ratio_value (ratio req)
     @ '' aspect ratio.\<newline>''
     @ ''        \<newline>''
     @ ''        CONTEXT:\<newline>''
     @ ''        Title: "''
     @ title req
     @ ''"\<newline>''
     @ ''        Niche: "''
     @ niche req
     @ ''"\<newline>''
     @ ''        Emotion: "''
     @ emotion_value (emotion req)
     @ ''"\<newline>''
     @ ''        Subject: "''
     @ (case subjectDescription req of None \<Rightarrow> ''Not specified'' | Some d \<Rightarrow> if d = [] then ''Not specified'' else d)
     @ ''"\<newline>''
     @ ''\<newline>''
     @ ''        CORE RULES:\<newline>''
     @ ''        1. Emotionally intense focal point.\<newline>''
     @ ''        2. Simple (1-2 focal points max).\<newline>''
     @ ''        3. Bold typography (3-6 words MAX, capital letters).\<newline>''
     @ ''        4. High contrast colors.\<newline>''
     @ ''        5. Respect the ''
     @ ratio_value (ratio req)
     @ '' aspect ratio in layout instructions.\<newline>''
     @ ''\<newline>''
     @ ''        IMPORTANT: I am providing ''
     @ show_nat (length (subjectImages req))
     @ '' reference image(s). Use them to understand the look and feel of the subject(s).\<newline>''
     @ ''\<newline>''
     @ ''        Return a JSON object:\<newline>''
     @ ''        {\<newline>''
     @ ''          "concept": { "idea": "one clear visual idea", "hook": "emotional hook explanation" },\<newline>''
     @ ''          "mainText": "3-6 WORDS MAX, ALL CAPS",\<newline>''
     @ ''          "visualElements": { \<newline>''
     @ ''            "expression": "shocked face / excited / etc", \<newline>''
     @ ''            "objects": ["primary object", "accent object"], \<newline>''
     @ ''            "directionalElements": ["red arrow", "yellow circle"], \<newline>''
     @ ''            "backgroundStyle": "gradient / blurred office / etc" \<newline>''
     @ ''          },\<newline>''
     @ ''          "colorPalette": { "primary": "CSS color", "accent": "CSS color", "text": "CSS color", "background": "CSS color" },\<newline>''
     @ ''          "layoutInstructions": { \<newline>''
     @ ''            "textPlacement": "left/right/center", \<newline>''
     @ ''            "subjectPlacement": "opposite to text", \<newline>''
     @ ''            "arrowDirections": ["towards text", "towards face"], \<newline>''
     @ ''            "negativeSpace": "area to keep clear" \<newline>''
     @ ''          }\<newline>''
     @ ''        }\<newline>''
     @ ''      ''\<close>

definition responseSchema :: schema where
  "responseSchema =
     OBJECT
       [(''concept'', OBJECT [(''idea'', STRING), (''hook'', STRING)] []),
        (''mainText'', STRING),
        (''visualElements'',
           OBJECT [(''expression'', STRING), (''objects'', ARRAY STRING),
                   (''directionalElements'', ARRAY STRING), (''backgroundStyle'', STRING)] []),
        (''colorPalette'',
           OBJECT [(''primary'', STRING), (''accent'', STRING), (''text'', STRING),
                   (''background'', STRING)] []),
        (''layoutInstructions'',
           OBJECT [(''textPlacement'', STRING), (''subjectPlacement'', STRING),
                   (''arrowDirections'', ARRAY STRING), (''negativeSpace'', STRING)] [])]
       [''concept'', ''mainText'', ''visualElements'', ''colorPalette'', ''layoutInstructions'']"

definition strategy_request :: "ThumbnailRequest \<Rightarrow> request" where
  "strategy_request req =
     \<lparr>model = ''gemini-3-pro-preview'',
      contents = text_part (strategy_prompt req) # map inline_part (subjectImages req),
      config = JsonResponse ''application/json'' responseSchema\<rparr>"

text \<open>
  The operation returns the requests it sent with its outcome. \<open>response.text\<close> may be
  \<open>undefined\<close>, and \<open>trim\<close> on it is a \<open>TypeError\<close>; \<open>JSON.parse\<close> throws a
  \<open>SyntaxError\<close> on text that is not JSON. Nothing is caught here.
\<close>

definition generateStrategy ::
  "'n platform \<Rightarrow> provider \<Rightarrow> ThumbnailRequest \<Rightarrow> request list \<times> (js_error + 'n ThumbnailDesign)" where
  "generateStrategy pf reasoning req =
     ([strategy_request req],
      (case reasoning (strategy_request req) of
         Inl e \<Rightarrow> Inl e
       | Inr resp \<Rightarrow>
           (case response_text resp of
              None \<Rightarrow> Inl (cannot_read ''undefined'' ''trim'')
            | Some t \<Rightarrow>
                (case json_parse pf (trim t) of
                   Inl m \<Rightarrow> Inl (SyntaxError m)
                 | Inr v \<Rightarrow> Inr v))))"

subsection \<open>generateThumbnailImage\<close>

text \<open>The template literal, with a parameter for each interpolated fragment.\<close>

type_synonym fragment = string

definition prompt_template ::
  "fragment \<Rightarrow> fragment \<Rightarrow> fragment \<Rightarrow> fragment \<Rightarrow> fragment \<Rightarrow> fragment \<Rightarrow> fragment
     \<Rightarrow> fragment \<Rightarrow> fragment \<Rightarrow> fragment \<Rightarrow> string" where
  \<open>prompt_template r subject focus props headline placement primary accent directional background =
       ''\<newline>''
     @ ''        Viral ''
     @ r
     @ '' YouTube/Social Media Thumbnail. High CTR style.\<newline>''
     @ ''        Subject: ''
     @ subject
     @ ''.\<newline>''
     @ ''        Focus: ''
     @ focus
     @ ''.\<newline>''
     @ ''        Props: ''
     @ props
     @ ''.\<newline>''
     @ ''        Text: Giant 3D bold text saying "''
     @ headline
     @ ''" placed at ''
     @ placement
     @ ''.\<newline>''
     @ ''        Aesthetics: Extremely high contrast, vibrant ''
     @ primary
     @ '' and ''
     @ accent
     @ '' colors. \<newline>''
     @ ''        Glow effects, thick outlines, directional ''
     @ directional
     @ ''.\<newline>''
     @ ''        Background: ''
     @ background
     @ ''.\<newline>''
     @ ''        Masterpiece, 4k, hyper-detailed, MrBeast aesthetic.\<newline>''
     @ ''        Use the provided reference image(s) to accurately represent the person or subject.\<newline>''
     @ ''      ''\<close>

text \<open>
  The prompt. \<open>strategy.visualElements\<close> on a \<open>null\<close> or \<open>undefined\<close> strategy is
  a \<open>TypeError\<close>; so is printing an object that cannot be converted. The reads and
  conversions happen in the order of the source.
\<close>

definition promptText :: "'n platform \<Rightarrow> 'n ThumbnailDesign \<Rightarrow> string \<Rightarrow> js_error + string" where
  "promptText pf design r =
     bind (member design ''visualElements'') (\<lambda>ve.
     let objects = array_or_empty (opt_member ve ''objects'') in
     bind (member design ''visualElements'') (\<lambda>ve.
     let directionalElements = array_or_empty (opt_member ve ''directionalElements'') in
     bind (member design ''visualElements'') (\<lambda>ve.
     bind (or_default pf (opt_member ve ''expression'') ''person'') (\<lambda>subject.
     bind (member design ''concept'') (\<lambda>co.
     bind (or_default pf (opt_member co ''idea'') ''intense scene'') (\<lambda>focus.
     bind (join_or pf objects ''none'') (\<lambda>props.
     bind (member design ''mainText'') (\<lambda>mt.
     bind (or_default pf mt []) (\<lambda>headline.
     bind (member design ''layoutInstructions'') (\<lambda>li.
     bind (or_default pf (opt_member li ''textPlacement'') ''center'') (\<lambda>placement.
     bind (member design ''colorPalette'') (\<lambda>cp.
     bind (or_default pf (opt_member cp ''primary'') ''red'') (\<lambda>primary.
     bind (member design ''colorPalette'') (\<lambda>cp.
     bind (or_default pf (opt_member cp ''accent'') ''yellow'') (\<lambda>accent.
     bind (join_or pf directionalElements ''arrows'') (\<lambda>directional.
     bind (member design ''visualElements'') (\<lambda>ve.
     bind (or_default pf (opt_member ve ''backgroundStyle'') ''vibrant gradient'') (\<lambda>background.
     Inr (prompt_template r subject focus props headline placement primary accent directional
            background)))))))))))))))))))"

definition image_request :: "string \<Rightarrow> string \<Rightarrow> ThumbnailImage list \<Rightarrow> request" where
  "image_request r prompt imgs =
     \<lparr>model = ''gemini-2.5-flash-image'',
      contents = text_part prompt # map inline_part imgs,
      config = ImageConfig r\<rparr>"

definition empty_response :: js_error where
  "empty_response =
     Error ''Empty image response. This usually indicates safety filter intervention.''"

definition no_image_data :: js_error where
  "no_image_data = Error ''No image data returned from rendering engine.''"

definition safety_block :: js_error where
  "safety_block =
     Error ''Safety Block: The content or subject image triggered safety filters. Try a different concept.''"

definition first_candidate_parts :: "response \<Rightarrow> Part list option" where
  \<comment> \<open>\<open>response.candidates?.[0]?.content?.parts\<close>\<close>
  "first_candidate_parts resp =
     (case candidates resp of
        None \<Rightarrow> None
      | Some cs \<Rightarrow>
          (case index cs 0 of
             None \<Rightarrow> None
           | Some c \<Rightarrow> (case content c of None \<Rightarrow> None | Some ct \<Rightarrow> parts ct)))"

fun first_image :: "Part list \<Rightarrow> js_error + string" where
  "first_image [] = Inl no_image_data"
| "first_image (p # ps) =
     (case inlineData p of
        Some b \<Rightarrow>
          Inr (''data:image/png;base64,'' @ (case blob_data b of None \<Rightarrow> ''undefined'' | Some d \<Rightarrow> d))
      | None \<Rightarrow> first_image ps)"

definition read_image :: "response \<Rightarrow> js_error + string" where
  "read_image resp =
     (case first_candidate_parts resp of
        None \<Rightarrow> Inl empty_response
      | Some ps \<Rightarrow> first_image ps)"

definition render_try ::
  "'n platform \<Rightarrow> provider \<Rightarrow> 'n ThumbnailDesign \<Rightarrow> string \<Rightarrow> ThumbnailImage list
     \<Rightarrow> request list \<times> (js_error + string)" where
  \<comment> \<open>the \<open>try\<close> block\<close>
  "render_try pf imaging design r imgs =
     (case promptText pf design r of
        Inl e \<Rightarrow> ([], Inl e)
      | Inr prompt \<Rightarrow>
          ([image_request r prompt imgs],
           (case imaging (image_request r prompt imgs) of
              Inl e \<Rightarrow> Inl e
            | Inr resp \<Rightarrow> read_image resp)))"

definition render_catch :: "js_error \<Rightarrow> js_error" where
  \<comment> \<open>the \<open>catch\<close> block: the error it throws\<close>
  "render_catch e = (if str_includes (message e) ''SAFETY'' then safety_block else e)"

definition generateThumbnailImage ::
  "'n platform \<Rightarrow> provider \<Rightarrow> 'n ThumbnailDesign \<Rightarrow> string \<Rightarrow> ThumbnailImage list
     \<Rightarrow> request list \<times> (js_error + string)" where
  "generateThumbnailImage pf imaging design r imgs =
     (case render_try pf imaging design r imgs of
        (sent, Inl e) \<Rightarrow> (sent, Inl (render_catch e))
      | (sent, Inr url) \<Rightarrow> (sent, Inr url))"

section \<open>The Generation Orchestrator (the App component)\<close>

text \<open>
  The component's state, with the log of the provider calls issued so far (oldest first).
  An operation runs from its call to the end of its last state update.
\<close>

datatype phase = idle | strategizing | rendering

datatype call = ReasoningCall request | ImageCall request

record 'n app =
  loadingPhase :: phase
  result :: "'n GenerationResult option"
  error :: "string option"
  form :: ThumbnailRequest
  calls :: "call list"

definition message_or :: "js_error \<Rightarrow> string \<Rightarrow> string" where
  \<comment> \<open>\<open>err.message || d\<close>\<close>
  "message_or e d = (if message e = [] then d else message e)"

definition renderImageOnly ::
  "'n platform \<Rightarrow> provider \<Rightarrow> 'n ThumbnailDesign \<Rightarrow> 'n app \<Rightarrow> 'n app" where
  "renderImageOnly pf imaging design st =
     (let st1 = st\<lparr>loadingPhase := rendering, error := None\<rparr>;
          (sent, outcome) =
             generateThumbnailImage pf imaging design (ratio_value (ratio (form st1)))
               (subjectImages (form st1));
          st2 = st1\<lparr>calls := calls st1 @ map ImageCall sent\<rparr>;
          st3 = (case outcome of
                   Inr url \<Rightarrow>
                     st2\<lparr>result :=
                           Some (case result st2 of
                                   Some prev \<Rightarrow> prev\<lparr>imageUrl := Some url\<rparr>
                                 | None \<Rightarrow> \<lparr>strategy = design, imageUrl = Some url\<rparr>)\<rparr>
                 | Inl err \<Rightarrow>
                     st2\<lparr>error :=
                           Some (message_or err ''Rendering hit a snag. Retrying often fixes this.'')\<rparr>)
      in st3\<lparr>loadingPhase := idle\<rparr>)"

definition handleGenerate ::
  "'n platform \<Rightarrow> provider \<Rightarrow> provider \<Rightarrow> 'n app \<Rightarrow> 'n app" where
  "handleGenerate pf reasoning imaging st =
     (if title (form st) = [] \<or> niche (form st) = []
      then st\<lparr>error := Some ''Please fill in the title and niche.''\<rparr>
      else
        (let st1 = st\<lparr>result := None, loadingPhase := strategizing, error := None\<rparr>;
             (sent, outcome) = generateStrategy pf reasoning (form st1);
             st2 = st1\<lparr>calls := calls st1 @ map ReasoningCall sent\<rparr>
         in (case outcome of
               Inr design \<Rightarrow>
                 renderImageOnly pf imaging design
                   (st2\<lparr>result := Some \<lparr>strategy = design, imageUrl = None\<rparr>\<rparr>)
             | Inl err \<Rightarrow>
                 st2\<lparr>error := Some (message_or err ''Failed to generate strategy.''),
                     loadingPhase := idle\<rparr>)))"

text \<open>The manual Render, invoked once for each provider behaviour of the list, in order.\<close>

fun render_repeatedly ::
  "'n platform \<Rightarrow> provider list \<Rightarrow> 'n ThumbnailDesign \<Rightarrow> 'n app \<Rightarrow> 'n app" where
  "render_repeatedly pf [] design st = st"
| "render_repeatedly pf (imaging # rest) design st =
     render_repeatedly pf rest design (renderImageOnly pf imaging design st)"

section \<open>Notions used in the statements\<close>

text \<open>The last sentence of the rendering prompt, which speaks of the reference images.\<close>

definition reference_instruction :: string where
  "reference_instruction =
     ''Use the provided reference image(s) to accurately represent the person or subject.''"

text \<open>A primitive value: anything but an array or an object. Printing it never throws.\<close>

fun primitive :: "'n jsval \<Rightarrow> bool" where
  "primitive (JArr xs) = False"
| "primitive (JObj kvs) = False"
| "primitive _ = True"



section \<open>Example values\<close>

text \<open>
  A platform for the examples. Its \<open>JSON.parse\<close> accepts the text \<open>{}\<close> and rejects
  every other text, as the real one does on each text the examples give it.
\<close>

definition example_platform :: "unit platform" where
  "example_platform =
     \<lparr>num_to_string = (\<lambda>_. ''0''),
      num_truthy = (\<lambda>_. False),
      json_parse = (\<lambda>s. if s = ''{}'' then Inr (JObj []) else Inl ''Unexpected token'')\<rparr>"

definition example_form :: ThumbnailRequest where
  "example_form =
     \<lparr>title = ''I Tried X for 30 Days'', niche = ''Fitness'', emotion = SHOCK, ratio = R16_9,
      subjectDescription = Some [], subjectImages = []\<rparr>"

definition example_app :: "unit app" where
  "example_app =
     \<lparr>loadingPhase = idle, result = None, error = None, form = example_form, calls = []\<rparr>"

definition failing :: "string \<Rightarrow> provider" where
  "failing m = (\<lambda>rq. Inl (Error m))"

definition answering :: "response \<Rightarrow> provider" where
  "answering resp = (\<lambda>rq. Inr resp)"

definition example_design :: "unit ThumbnailDesign" where
  "example_design =
     JObj [(''concept'', JObj [(''idea'', JStr ''before and after''), (''hook'', JStr ''curiosity'')]),
           (''mainText'', JStr ''30 DAYS LATER''),
           (''visualElements'',
              JObj [(''expression'', JStr ''shocked face''),
                    (''objects'', JArr [JStr ''dumbbell'', JStr ''scale'']),
                    (''directionalElements'', JArr [JStr ''red arrow'']),
                    (''backgroundStyle'', JStr ''blurred gym'')]),
           (''colorPalette'', JObj [(''primary'', JStr ''orange''), (''accent'', JStr ''white'')]),
           (''layoutInstructions'', JObj [(''textPlacement'', JStr ''left'')])]"

definition example_prompt :: "string \<Rightarrow> string" where
  "example_prompt r =
     prompt_template r ''shocked face'' ''before and after'' ''dumbbell, scale'' ''30 DAYS LATER''
       ''left'' ''orange'' ''white'' ''red arrow'' ''blurred gym''"

definition example_result :: "unit GenerationResult" where
  "example_result = \<lparr>strategy = example_design, imageUrl = None\<rparr>"

definition image_response :: response where
  "image_response =
     \<lparr>candidates =
        Some [\<lparr>content =
                 Some \<lparr>parts =
                         Some [text_part ''Here is your thumbnail.'',
                               \<lparr>part_text = None,
                                inlineData = Some \<lparr>blob_data = Some ''QUJD'',
                                                   blob_mimeType = Some ''image/jpeg''\<rparr>\<rparr>]\<rparr>\<rparr>],
      response_text = None\<rparr>"

definition text_response :: "string \<Rightarrow> response" where
  "text_response t = \<lparr>candidates = None, response_text = Some t\<rparr>"


definition empty_parts_response :: response where
  "empty_parts_response =
     \<lparr>candidates = Some [\<lparr>content = Some \<lparr>parts = Some []\<rparr>\<rparr>], response_text = None\<rparr>"

definition no_candidates_response :: response where
  "no_candidates_response = \<lparr>candidates = Some [], response_text = None\<rparr>"

definition text_only_response :: response where
  "text_only_response =
     \<lparr>candidates = Some [\<lparr>content = Some \<lparr>parts = Some [text_part ''I cannot draw this.'']\<rparr>\<rparr>],
      response_text = None\<rparr>"


text \<open>The text \<open>{}\<close> after a vertical tab: \<open>trim\<close> removes the tab, JSON does not allow it.\<close>

definition padded_json :: string where
  "padded_json = CHR 0x0B # ''{}''"

section \<open>Properties\<close>

subsection \<open>Substrings\<close>

lemma startsWith_append: "startsWith (t @ s) t"
  by (induction t) simp_all

lemma str_includes_here: "str_includes (t @ s) t"
proof (cases t)
  case Nil
  then show ?thesis by (induction s) simp_all
next
  case (Cons c u)
  have "startsWith ((c # u) @ s) (c # u)" by (rule startsWith_append)
  then show ?thesis using Cons by simp
qed

lemma str_includes_after: "str_includes s t \<Longrightarrow> str_includes (p @ s) t"
  by (induction p) simp_all

lemma startsWith_longer: "startsWith s t \<Longrightarrow> startsWith (s @ q) t"
  by (induction s t rule: startsWith.induct) simp_all

lemma str_includes_before: "str_includes s t \<Longrightarrow> str_includes (s @ q) t"
proof (induction s)
  case Nil
  then have "t = []" by simp
  then show ?case using str_includes_here [of "[]" q] by simp
next
  case (Cons x s)
  then show ?case using startsWith_longer [of "x # s" t q] by auto
qed

subsection \<open>The prompt\<close>

lemma prompt_template_instruction:
  "str_includes (prompt_template r a b c d e f g h i) reference_instruction"
proof -
  have piece: "str_includes
      ''        Use the provided reference image(s) to accurately represent the person or subject.\<newline>''
      reference_instruction"
    by (simp add: reference_instruction_def)
  show ?thesis
    unfolding prompt_template_def
    apply (simp only: append_assoc [symmetric])
    apply (rule str_includes_before)
    apply (rule str_includes_after)
    apply (rule piece)
    done
qed





lemma promptText_shape:
  assumes "promptText pf design r = Inr p"
  shows "\<exists>a b c d e f g h i. p = prompt_template r a b c d e f g h i"
proof -
  from assms obtain a b c d e f g h i
    where "p = prompt_template r a b c d e f g h i"
    unfolding promptText_def bind_def Let_def
    by (auto split: sum.splits)
  then show ?thesis by blast
qed

lemma example_promptText:
  "promptText example_platform example_design r = Inr (example_prompt r)"
  by (simp add: promptText_def example_design_def example_prompt_def bind_def opt_member_def
      or_default_def join_or_def array_or_empty_def)










subsection \<open>Requests and responses\<close>

lemma split_on_unfold:
  "split_on c s
     = takeWhile (\<lambda>x. x \<noteq> c) s
       # (if c \<in> set s then split_on c (tl (dropWhile (\<lambda>x. x \<noteq> c) s)) else [])"
  by (induction s) (auto split: list.splits)

lemma index_split_on:
  "index (split_on c s) 1
     = (if c \<in> set s
        then Some (takeWhile (\<lambda>x. x \<noteq> c) (tl (dropWhile (\<lambda>x. x \<noteq> c) s)))
        else None)"
proof (cases "c \<in> set s")
  case True
  let ?rest = "tl (dropWhile (\<lambda>x. x \<noteq> c) s)"
  have "split_on c s = takeWhile (\<lambda>x. x \<noteq> c) s # split_on c ?rest"
    using True split_on_unfold [of c s] by simp
  moreover have "\<exists>ys. split_on c ?rest = takeWhile (\<lambda>x. x \<noteq> c) ?rest # ys"
    using split_on_unfold [of c ?rest] by blast
  ultimately show ?thesis using True by auto
next
  case False
  then have "split_on c s = [takeWhile (\<lambda>x. x \<noteq> c) s]"
    using split_on_unfold [of c s] by simp
  then show ?thesis using False by simp
qed

lemma fst_generateThumbnailImage:
  "fst (generateThumbnailImage pf imaging design r imgs) = fst (render_try pf imaging design r imgs)"
  by (simp add: generateThumbnailImage_def split: prod.splits sum.splits)

lemma length_fst_render_try: "length (fst (render_try pf imaging design r imgs)) \<le> 1"
  by (simp add: render_try_def split: sum.splits)

lemma generateThumbnailImage_answered:
  assumes "promptText pf design r = Inr p" and "imaging (image_request r p imgs) = Inr resp"
  shows "snd (generateThumbnailImage pf imaging design r imgs)
           = (case read_image resp of Inl e \<Rightarrow> Inl (render_catch e) | Inr url \<Rightarrow> Inr url)"
  using assms by (simp add: generateThumbnailImage_def render_try_def split: sum.splits)

lemma generateThumbnailImage_success:
  assumes "snd (generateThumbnailImage pf imaging design r imgs) = Inr url"
  shows "\<exists>resp. read_image resp = Inr url"
  using assms
  by (auto simp: generateThumbnailImage_def render_try_def split: sum.splits prod.splits)

lemma render_try_provider_failure:
  assumes "promptText pf design r = Inr p" and "imaging (image_request r p imgs) = Inl e"
  shows "snd (render_try pf imaging design r imgs) = Inl e"
  using assms by (simp add: render_try_def)

lemma empty_response_kept: "render_catch empty_response = empty_response"
  by (simp add: render_catch_def empty_response_def)

lemma no_image_data_kept: "render_catch no_image_data = no_image_data"
  by (simp add: render_catch_def no_image_data_def)

lemma first_image_none:
  "list_all (\<lambda>q. inlineData q = None) ps \<Longrightarrow> first_image ps = Inl no_image_data"
  by (induction ps) simp_all

lemma first_image_found:
  assumes "list_all (\<lambda>x. inlineData x = None) before" and "inlineData q = Some b"
  shows "first_image (before @ q # after)
           = Inr (''data:image/png;base64,''
                   @ (case blob_data b of None \<Rightarrow> ''undefined'' | Some d \<Rightarrow> d))"
  using assms by (induction before) simp_all

lemma first_image_prefix:
  "first_image ps = Inr url \<Longrightarrow> startsWith url ''data:image/png;base64,''"
proof (induction ps)
  case Nil
  then show ?case by simp
next
  case (Cons p ps)
  show ?case
  proof (cases "inlineData p")
    case None
    then show ?thesis using Cons by simp
  next
    case (Some b)
    then have "url = ''data:image/png;base64,''
                 @ (case blob_data b of None \<Rightarrow> ''undefined'' | Some d \<Rightarrow> d)"
      using Cons.prems by simp
    then show ?thesis using startsWith_append by blast
  qed
qed

lemma example_render_fails:
  "generateThumbnailImage example_platform (failing ''quota exceeded'') example_design r imgs
     = ([image_request r (example_prompt r) imgs], Inl (Error ''quota exceeded''))"
  by (simp add: generateThumbnailImage_def render_try_def example_promptText failing_def
      render_catch_def)

lemma example_render_succeeds:
  "generateThumbnailImage example_platform (answering image_response) example_design r imgs
     = ([image_request r (example_prompt r) imgs], Inr ''data:image/png;base64,QUJD'')"
  by (simp add: generateThumbnailImage_def render_try_def example_promptText answering_def
      read_image_def first_candidate_parts_def image_response_def text_part_def)

lemma calls_renderImageOnly:
  "calls (renderImageOnly pf imaging design st) =
     calls st @ map ImageCall
       (fst (generateThumbnailImage pf imaging design (ratio_value (ratio (form st)))
              (subjectImages (form st))))"
  by (simp add: renderImageOnly_def Let_def split: prod.splits sum.splits)

subsection \<open>The reference-image sentence of the prompt\<close>

text \<open>
  Claim C1, as amended. The prompt has no part that depends on the reference images:
  whenever it is assembled, it contains the sentence asking to use the provided reference
  images, and it is the text part of the request whatever the image sequence is, empty
  or not.
\<close>

theorem prompt_always_refers_to_images:
  assumes "promptText pf design r = Inr p"
  shows "str_includes p reference_instruction
       \<and> fst (generateThumbnailImage pf imaging design r imgs) = [image_request r p imgs]
       \<and> contents (image_request r p imgs) = text_part p # map inline_part imgs"
proof -
  from promptText_shape [OF assms] obtain a b c d e f g h i
    where "p = prompt_template r a b c d e f g h i" by blast
  then have "str_includes p reference_instruction"
    by (simp only: prompt_template_instruction)
  moreover have "fst (generateThumbnailImage pf imaging design r imgs) = [image_request r p imgs]"
    using assms by (simp add: fst_generateThumbnailImage render_try_def)
  moreover have "contents (image_request r p imgs) = text_part p # map inline_part imgs"
    by (simp add: image_request_def)
  ultimately show ?thesis by blast
qed

theorem prompt_always_refers_to_images_witness:
  "promptText example_platform example_design ''4:3'' = Inr (example_prompt ''4:3'')
   \<and> str_includes (example_prompt ''4:3'') reference_instruction
   \<and> fst (generateThumbnailImage example_platform (answering image_response) example_design
         ''4:3'' [\<lparr>data = ''data:image/png;base64,QUJD'', mimeType = ''image/png''\<rparr>])
       = [image_request ''4:3'' (example_prompt ''4:3'')
            [\<lparr>data = ''data:image/png;base64,QUJD'', mimeType = ''image/png''\<rparr>]]"
  using prompt_always_refers_to_images [OF example_promptText, of "''4:3''"
      "answering image_response"
      "[\<lparr>data = ''data:image/png;base64,QUJD'', mimeType = ''image/png''\<rparr>]"]
  by (simp add: example_promptText)

text \<open>
  Claim C1 as stated fails: with no reference image at all, the prompt sent still asks to
  use the provided reference images.
\<close>

theorem no_images_prompt_still_refers_to_them:
  "subjectImages example_form = []
   \<and> fst (generateThumbnailImage example_platform (answering image_response) example_design
         (ratio_value (ratio example_form)) (subjectImages example_form))
       = [image_request ''16:9'' (example_prompt ''16:9'') []]
   \<and> contents (image_request ''16:9'' (example_prompt ''16:9'') [])
       = [text_part (example_prompt ''16:9'')]
   \<and> str_includes (example_prompt ''16:9'') reference_instruction"
  by (simp add: example_form_def fst_generateThumbnailImage render_try_def example_promptText
      image_request_def example_prompt_def prompt_template_instruction)

subsection \<open>Validation of the form\<close>

text \<open>
  Claim C2. When the title or the niche of the form is the empty string, Generate only sets
  the validation message: the phase is the one it was (so \<open>idle\<close> stays \<open>idle\<close>), the
  current result is the one it was, and no provider is called.
\<close>

theorem generate_validation:
  assumes "title (form st) = [] \<or> niche (form st) = []"
  shows "error (handleGenerate pf reasoning imaging st) = Some ''Please fill in the title and niche.''
       \<and> loadingPhase (handleGenerate pf reasoning imaging st) = loadingPhase st
       \<and> result (handleGenerate pf reasoning imaging st) = result st
       \<and> calls (handleGenerate pf reasoning imaging st) = calls st"
  using assms by (simp add: handleGenerate_def)

theorem generate_validation_witness:
  "niche (form (example_app\<lparr>form := example_form\<lparr>niche := []\<rparr>\<rparr>)) = []
   \<and> error (handleGenerate example_platform (failing ''unused'') (failing ''unused'')
         (example_app\<lparr>form := example_form\<lparr>niche := []\<rparr>\<rparr>))
       = Some ''Please fill in the title and niche.''
   \<and> loadingPhase (handleGenerate example_platform (failing ''unused'') (failing ''unused'')
         (example_app\<lparr>form := example_form\<lparr>niche := []\<rparr>\<rparr>)) = idle
   \<and> calls (handleGenerate example_platform (failing ''unused'') (failing ''unused'')
         (example_app\<lparr>form := example_form\<lparr>niche := []\<rparr>\<rparr>)) = []"
  using generate_validation [of "example_app\<lparr>form := example_form\<lparr>niche := []\<rparr>\<rparr>"
      example_platform "failing ''unused''" "failing ''unused''"]
  by (simp add: example_app_def)

subsection \<open>Render keeps the strategy\<close>

text \<open>
  Claim C3. With a current result in place, a Render that fails records the error (its
  message, or the fallback text when the message is empty), leaves the result as it was
  (its strategy, and no new image) and ends in \<open>idle\<close>; a Render that succeeds attaches
  the returned image to that result, whose strategy is unchanged, and ends in \<open>idle\<close>.
\<close>

theorem render_keeps_strategy:
  assumes "result st = Some res"
  shows "case snd (generateThumbnailImage pf imaging design (ratio_value (ratio (form st)))
                    (subjectImages (form st))) of
           Inl err \<Rightarrow>
             error (renderImageOnly pf imaging design st)
               = Some (message_or err ''Rendering hit a snag. Retrying often fixes this.'')
             \<and> result (renderImageOnly pf imaging design st) = Some res
             \<and> loadingPhase (renderImageOnly pf imaging design st) = idle
         | Inr url \<Rightarrow>
             result (renderImageOnly pf imaging design st) = Some (res\<lparr>imageUrl := Some url\<rparr>)
             \<and> map_option strategy (result (renderImageOnly pf imaging design st))
                 = Some (strategy res)
             \<and> loadingPhase (renderImageOnly pf imaging design st) = idle"
  using assms by (simp add: renderImageOnly_def Let_def split: prod.splits sum.splits)

theorem render_keeps_strategy_witness:
  "result (example_app\<lparr>result := Some example_result\<rparr>) = Some example_result
   \<and> error (renderImageOnly example_platform (failing ''quota exceeded'') example_design
         (example_app\<lparr>result := Some example_result\<rparr>)) = Some ''quota exceeded''
   \<and> result (renderImageOnly example_platform (failing ''quota exceeded'') example_design
         (example_app\<lparr>result := Some example_result\<rparr>)) = Some example_result
   \<and> imageUrl example_result = None
   \<and> loadingPhase (renderImageOnly example_platform (failing ''quota exceeded'') example_design
         (example_app\<lparr>result := Some example_result\<rparr>)) = idle
   \<and> result (renderImageOnly example_platform (answering image_response) example_design
         (example_app\<lparr>result := Some example_result\<rparr>))
       = Some \<lparr>strategy = example_design, imageUrl = Some ''data:image/png;base64,QUJD''\<rparr>"
  using
    render_keeps_strategy [of "example_app\<lparr>result := Some example_result\<rparr>" example_result
      example_platform "failing ''quota exceeded''" example_design]
    render_keeps_strategy [of "example_app\<lparr>result := Some example_result\<rparr>" example_result
      example_platform "answering image_response" example_design]
  by (simp add: example_render_fails example_render_succeeds message_or_def example_result_def)

subsection \<open>Render never calls the reasoning provider\<close>

text \<open>
  Claim C4. However many times the manual Render is invoked on a Strategy Document, every
  provider call it adds is a call of the image provider, at most one for each invocation;
  the reasoning provider is never called.
\<close>

theorem rerender_only_image_calls:
  "\<exists>sent. calls (render_repeatedly pf imagings design st) = calls st @ map ImageCall sent
          \<and> length sent \<le> length imagings"
proof (induction imagings arbitrary: st)
  case Nil
  show ?case by simp
next
  case (Cons imaging rest)
  let ?st1 = "renderImageOnly pf imaging design st"
  let ?new = "fst (generateThumbnailImage pf imaging design (ratio_value (ratio (form st)))
                    (subjectImages (form st)))"
  from Cons.IH [of ?st1] obtain sent where
    s: "calls (render_repeatedly pf rest design ?st1) = calls ?st1 @ map ImageCall sent"
    and l: "length sent \<le> length rest" by blast
  have n: "length ?new \<le> 1"
    using length_fst_render_try [of pf imaging design] by (simp add: fst_generateThumbnailImage)
  have "calls (render_repeatedly pf (imaging # rest) design st)
          = calls st @ map ImageCall (?new @ sent)"
    using s by (simp add: calls_renderImageOnly)
  moreover have "length (?new @ sent) \<le> length (imaging # rest)"
    using n l by simp
  ultimately show ?case by blast
qed

subsection \<open>Missing lists\<close>




subsection \<open>The two errors of an image-less response\<close>

text \<open>
  Claim C6, as amended. When the response has no list of parts to read (no candidates, no
  first candidate, a first candidate without content, or content without a list of parts),
  the renderer fails with the empty-response error; when the list of parts is there, empty
  or not, and none of its parts has inline data, it fails with the no-image-data error,
  which is a different one.
\<close>

theorem render_error_flavours:
  assumes "promptText pf design r = Inr p" and "imaging (image_request r p imgs) = Inr resp"
  shows "(first_candidate_parts resp = None \<longrightarrow>
            snd (generateThumbnailImage pf imaging design r imgs) = Inl empty_response)
       \<and> (first_candidate_parts resp = Some ps \<and> list_all (\<lambda>q. inlineData q = None) ps \<longrightarrow>
            snd (generateThumbnailImage pf imaging design r imgs) = Inl no_image_data)
       \<and> empty_response \<noteq> no_image_data"
proof -
  have "snd (generateThumbnailImage pf imaging design r imgs) = Inl empty_response"
    if "first_candidate_parts resp = None"
    using that assms generateThumbnailImage_answered [of pf design r p imaging imgs resp]
    by (simp add: read_image_def empty_response_kept)
  moreover have "snd (generateThumbnailImage pf imaging design r imgs) = Inl no_image_data"
    if "first_candidate_parts resp = Some ps" and "list_all (\<lambda>q. inlineData q = None) ps"
    using that assms generateThumbnailImage_answered [of pf design r p imaging imgs resp]
    by (simp add: read_image_def first_image_none no_image_data_kept)
  moreover have "empty_response \<noteq> no_image_data"
    by (simp add: empty_response_def no_image_data_def)
  ultimately show ?thesis by blast
qed

theorem render_error_flavours_witness:
  "first_candidate_parts no_candidates_response = None
   \<and> snd (generateThumbnailImage example_platform (answering no_candidates_response)
         example_design ''16:9'' []) = Inl empty_response
   \<and> first_candidate_parts text_only_response = Some [text_part ''I cannot draw this.'']
   \<and> snd (generateThumbnailImage example_platform (answering text_only_response)
         example_design ''16:9'' []) = Inl no_image_data"
proof -
  have a: "first_candidate_parts no_candidates_response = None"
    by (simp add: first_candidate_parts_def no_candidates_response_def)
  have b: "first_candidate_parts text_only_response = Some [text_part ''I cannot draw this.'']"
    by (simp add: first_candidate_parts_def text_only_response_def)
  have c: "list_all (\<lambda>q. inlineData q = None) [text_part ''I cannot draw this.'']"
    by (simp add: text_part_def)
  show ?thesis
    using
      render_error_flavours [OF example_promptText, of "answering no_candidates_response"
        "''16:9''" "[]" no_candidates_response "[]"]
      render_error_flavours [OF example_promptText, of "answering text_only_response"
        "''16:9''" "[]" text_only_response "[text_part ''I cannot draw this.'']"]
      a b c
    by (simp add: answering_def)
qed

text \<open>
  Claim C6 as stated fails: a first candidate whose list of parts is empty has no content
  part at all, and the renderer fails with the no-image-data error, not with the
  empty-response error.
\<close>

theorem empty_parts_list_is_not_empty_response:
  "first_candidate_parts empty_parts_response = Some []
   \<and> snd (generateThumbnailImage example_platform (answering empty_parts_response)
         example_design ''16:9'' []) = Inl no_image_data
   \<and> no_image_data \<noteq> empty_response"
proof -
  have "first_candidate_parts empty_parts_response = Some []"
    by (simp add: first_candidate_parts_def empty_parts_response_def)
  moreover from this
  have "snd (generateThumbnailImage example_platform (answering empty_parts_response)
               example_design ''16:9'' []) = Inl no_image_data"
    by (simp add: generateThumbnailImage_def render_try_def example_promptText answering_def
        read_image_def no_image_data_kept)
  moreover have "no_image_data \<noteq> empty_response"
    by (simp add: no_image_data_def empty_response_def)
  ultimately show ?thesis by blast
qed

subsection \<open>Safety failures\<close>

text \<open>
  Claim C7. Whatever fails inside the renderer, with error \<open>e\<close>: when the message of
  \<open>e\<close> contains the marker \<open>SAFETY\<close> the renderer throws the safety-block error, whose
  message tells to try a different concept; otherwise it throws \<open>e\<close> itself.
\<close>

theorem safety_failures_resurfaced:
  assumes "snd (render_try pf imaging design r imgs) = Inl e"
  shows "snd (generateThumbnailImage pf imaging design r imgs)
           = Inl (if str_includes (message e) ''SAFETY'' then safety_block else e)
       \<and> str_includes (message safety_block) ''Try a different concept''"
proof -
  from assms obtain sent where "render_try pf imaging design r imgs = (sent, Inl e)"
    by (cases "render_try pf imaging design r imgs") simp
  then have "snd (generateThumbnailImage pf imaging design r imgs)
          = Inl (if str_includes (message e) ''SAFETY'' then safety_block else e)"
    by (simp add: generateThumbnailImage_def render_catch_def)
  moreover have "str_includes (message safety_block) ''Try a different concept''"
    by (simp add: safety_block_def)
  ultimately show ?thesis by blast
qed

theorem safety_failures_resurfaced_witness:
  "snd (render_try example_platform (failing ''Blocked: finishReason SAFETY'') example_design
         ''16:9'' []) = Inl (Error ''Blocked: finishReason SAFETY'')
   \<and> snd (generateThumbnailImage example_platform (failing ''Blocked: finishReason SAFETY'')
         example_design ''16:9'' []) = Inl safety_block
   \<and> snd (render_try example_platform (failing ''429 quota exceeded'') example_design
         ''16:9'' []) = Inl (Error ''429 quota exceeded'')
   \<and> snd (generateThumbnailImage example_platform (failing ''429 quota exceeded'')
         example_design ''16:9'' []) = Inl (Error ''429 quota exceeded'')
   \<and> snd (render_try example_platform (failing ''unused'') JNull ''16:9'' [])
       = Inl (cannot_read ''null'' ''visualElements'')
   \<and> snd (generateThumbnailImage example_platform (failing ''unused'') JNull ''16:9'' [])
       = Inl (cannot_read ''null'' ''visualElements'')"
proof -
  have a: "snd (render_try example_platform (failing ''Blocked: finishReason SAFETY'')
             example_design ''16:9'' []) = Inl (Error ''Blocked: finishReason SAFETY'')"
    by (rule render_try_provider_failure [OF example_promptText]) (simp add: failing_def)
  have b: "snd (render_try example_platform (failing ''429 quota exceeded'') example_design
             ''16:9'' []) = Inl (Error ''429 quota exceeded'')"
    by (rule render_try_provider_failure [OF example_promptText]) (simp add: failing_def)
  have c: "snd (render_try example_platform (failing ''unused'') JNull ''16:9'' [])
             = Inl (cannot_read ''null'' ''visualElements'')"
    by (simp add: render_try_def promptText_def bind_def)
  show ?thesis
    using safety_failures_resurfaced [OF a] safety_failures_resurfaced [OF b]
      safety_failures_resurfaced [OF c] a b c
    by (simp add: cannot_read_def)
qed

subsection \<open>Unparseable strategy text\<close>

text \<open>
  Claim C8, as amended. When the form is valid and the text the reasoning provider returned,
  once trimmed, does not parse as JSON, \<open>generateStrategy\<close> fails (with the parser's
  \<open>SyntaxError\<close>), and Generate records the error, ends in \<open>idle\<close> with no current result, having called the
  reasoning provider once and the image provider not at all.
\<close>

theorem unparseable_strategy:
  assumes "title (form st) \<noteq> []" and "niche (form st) \<noteq> []"
    and "reasoning (strategy_request (form st)) = Inr resp"
    and "response_text resp = Some t"
    and "json_parse pf (trim t) = Inl m"
  shows "snd (generateStrategy pf reasoning (form st)) = Inl (SyntaxError m)
       \<and> error (handleGenerate pf reasoning imaging st)
           = Some (message_or (SyntaxError m) ''Failed to generate strategy.'')
       \<and> loadingPhase (handleGenerate pf reasoning imaging st) = idle
       \<and> result (handleGenerate pf reasoning imaging st) = None
       \<and> calls (handleGenerate pf reasoning imaging st)
           = calls st @ [ReasoningCall (strategy_request (form st))]"
  using assms by (simp add: handleGenerate_def generateStrategy_def Let_def)

theorem unparseable_strategy_witness:
  "title (form example_app) \<noteq> [] \<and> niche (form example_app) \<noteq> []
   \<and> json_parse example_platform (trim '' <html>502</html> '') = Inl ''Unexpected token''
   \<and> snd (generateStrategy example_platform (answering (text_response '' <html>502</html> ''))
         (form example_app)) = Inl (SyntaxError ''Unexpected token'')
   \<and> error (handleGenerate example_platform (answering (text_response '' <html>502</html> ''))
         (answering image_response) example_app) = Some ''Unexpected token''
   \<and> loadingPhase (handleGenerate example_platform
         (answering (text_response '' <html>502</html> '')) (answering image_response) example_app)
       = idle
   \<and> result (handleGenerate example_platform
         (answering (text_response '' <html>502</html> '')) (answering image_response) example_app)
       = None"
  using unparseable_strategy [of example_app "answering (text_response '' <html>502</html> '')"
      "text_response '' <html>502</html> ''" "'' <html>502</html> ''" example_platform
      "''Unexpected token''" "answering image_response"]
  by (simp add: example_app_def example_form_def answering_def text_response_def
      example_platform_def trim_def is_space_def message_or_def)

text \<open>
  Claim C8 as stated fails: the text \<open>{}\<close> after a vertical tab does not parse as JSON,
  but it is trimmed before it is parsed, so \<open>generateStrategy\<close> succeeds and Generate
  stores a result.
\<close>

theorem padded_json_is_parsed:
  "json_parse example_platform padded_json = Inl ''Unexpected token''
   \<and> trim padded_json = ''{}''
   \<and> snd (generateStrategy example_platform (answering (text_response padded_json))
         (form example_app)) = Inr (JObj [])
   \<and> result (handleGenerate example_platform (answering (text_response padded_json))
         (answering image_response) example_app)
       = Some \<lparr>strategy = JObj [], imageUrl = Some ''data:image/png;base64,QUJD''\<rparr>
   \<and> error (handleGenerate example_platform (answering (text_response padded_json))
         (answering image_response) example_app) = None"
proof -
  have p: "json_parse example_platform padded_json = Inl ''Unexpected token''"
    by (simp add: example_platform_def padded_json_def)
  have t: "trim padded_json = ''{}''"
    by (simp add: trim_def is_space_def padded_json_def)
  have s: "generateStrategy example_platform (answering (text_response padded_json)) example_form
             = ([strategy_request example_form], Inr (JObj []))"
    by (simp add: generateStrategy_def answering_def text_response_def t example_platform_def)
  have q: "\<exists>p. promptText example_platform (JObj []) ''16:9'' = Inr p"
    by (simp add: promptText_def bind_def opt_member_def or_default_def join_or_def
        array_or_empty_def)
  then obtain p where pp: "promptText example_platform (JObj []) ''16:9'' = Inr p" by blast
  have g: "generateThumbnailImage example_platform (answering image_response) (JObj [])
             ''16:9'' [] = ([image_request ''16:9'' p []], Inr ''data:image/png;base64,QUJD'')"
    by (simp add: generateThumbnailImage_def render_try_def pp answering_def read_image_def
        first_candidate_parts_def image_response_def text_part_def)
  have h: "handleGenerate example_platform (answering (text_response padded_json))
             (answering image_response) example_app
           = renderImageOnly example_platform (answering image_response) (JObj [])
               (example_app\<lparr>result := Some \<lparr>strategy = JObj [], imageUrl = None\<rparr>,
                  loadingPhase := strategizing, error := None,
                  calls := [ReasoningCall (strategy_request example_form)]\<rparr>)"
    by (simp add: handleGenerate_def Let_def example_app_def example_form_def s [unfolded example_form_def])
  show ?thesis
    using p t s g unfolding h
    by (simp add: renderImageOnly_def Let_def example_app_def example_form_def)
qed

subsection \<open>The image returned\<close>

text \<open>
  Claim C9. When the parts of the first candidate have a part with inline data, the renderer
  returns \<open>data:image/png;base64,\<close> followed by the data of the first such part, whatever
  its declared media type (a part whose inline data has no \<open>data\<close> field prints as
  \<open>undefined\<close>); and every string the renderer returns begins with
  \<open>data:image/png;base64,\<close>.
\<close>

theorem first_inline_image_returned:
  "(promptText pf design r = Inr p \<and> imaging (image_request r p imgs) = Inr resp
      \<and> first_candidate_parts resp = Some (before @ q # after)
      \<and> list_all (\<lambda>x. inlineData x = None) before \<and> inlineData q = Some b \<longrightarrow>
      snd (generateThumbnailImage pf imaging design r imgs)
        = Inr (''data:image/png;base64,''
                @ (case blob_data b of None \<Rightarrow> ''undefined'' | Some d \<Rightarrow> d)))
   \<and> (snd (generateThumbnailImage pf imaging design r imgs) = Inr url \<longrightarrow>
        startsWith url ''data:image/png;base64,'')"
proof -
  have "snd (generateThumbnailImage pf imaging design r imgs)
          = Inr (''data:image/png;base64,''
                  @ (case blob_data b of None \<Rightarrow> ''undefined'' | Some d \<Rightarrow> d))"
    if "promptText pf design r = Inr p" and "imaging (image_request r p imgs) = Inr resp"
      and "first_candidate_parts resp = Some (before @ q # after)"
      and "list_all (\<lambda>x. inlineData x = None) before" and "inlineData q = Some b"
    using that generateThumbnailImage_answered [of pf design r p imaging imgs resp]
      first_image_found [of before q b after]
    by (simp add: read_image_def)
  moreover have "startsWith url ''data:image/png;base64,''"
    if "snd (generateThumbnailImage pf imaging design r imgs) = Inr url"
  proof -
    from generateThumbnailImage_success [OF that] obtain resp where "read_image resp = Inr url"
      by blast
    then obtain ps where "first_image ps = Inr url"
      by (auto simp: read_image_def split: option.splits)
    then show ?thesis by (rule first_image_prefix)
  qed
  ultimately show ?thesis by blast
qed

theorem first_inline_image_returned_witness:
  "first_candidate_parts image_response
     = Some ([text_part ''Here is your thumbnail.'']
             @ \<lparr>part_text = None,
                inlineData = Some \<lparr>blob_data = Some ''QUJD'', blob_mimeType = Some ''image/jpeg''\<rparr>\<rparr>
             # [])
   \<and> snd (generateThumbnailImage example_platform (answering image_response) example_design
         ''16:9'' []) = Inr ''data:image/png;base64,QUJD''
   \<and> startsWith ''data:image/png;base64,QUJD'' ''data:image/png;base64,''"
proof -
  have a: "first_candidate_parts image_response
     = Some ([text_part ''Here is your thumbnail.'']
             @ \<lparr>part_text = None,
                inlineData = Some \<lparr>blob_data = Some ''QUJD'', blob_mimeType = Some ''image/jpeg''\<rparr>\<rparr>
             # [])"
    by (simp add: first_candidate_parts_def image_response_def)
  have b: "list_all (\<lambda>x. inlineData x = None) [text_part ''Here is your thumbnail.'']"
    by (simp add: text_part_def)
  have c: "answering image_response (image_request ''16:9'' (example_prompt ''16:9'') [])
             = Inr image_response"
    by (simp add: answering_def)
  have d: "snd (generateThumbnailImage example_platform (answering image_response)
                 example_design ''16:9'' []) = Inr ''data:image/png;base64,QUJD''"
    using first_inline_image_returned [of example_platform example_design "''16:9''"
        "example_prompt ''16:9''" "answering image_response" "[]" image_response
        "[text_part ''Here is your thumbnail.'']"
        "\<lparr>part_text = None,
          inlineData = Some \<lparr>blob_data = Some ''QUJD'', blob_mimeType = Some ''image/jpeg''\<rparr>\<rparr>"
        "[]" "\<lparr>blob_data = Some ''QUJD'', blob_mimeType = Some ''image/jpeg''\<rparr>"
        "''data:image/png;base64,QUJD''"]
      a b c example_promptText [of "''16:9''"]
    by simp
  show ?thesis
    using first_inline_image_returned [of example_platform example_design "''16:9''"
        "example_prompt ''16:9''" "answering image_response" "[]" image_response
        "[text_part ''Here is your thumbnail.'']"
        "\<lparr>part_text = None,
          inlineData = Some \<lparr>blob_data = Some ''QUJD'', blob_mimeType = Some ''image/jpeg''\<rparr>\<rparr>"
        "[]" "\<lparr>blob_data = Some ''QUJD'', blob_mimeType = Some ''image/jpeg''\<rparr>"
        "''data:image/png;base64,QUJD''"]
      a d
    by simp
qed

subsection \<open>The payload of a reference image\<close>

text \<open>
  Claim C10, as amended. The part sent for a reference image, by either operation, carries
  the declared media type and, as data, the piece of the image's data between its first
  comma and its second one (or the end, when there is no second comma); the data is absent
  when the image's data has no comma. Both operations send the text part followed by these
  parts, in the order of the images.
\<close>

theorem inline_payload_second_piece:
  "inline_part img
     = \<lparr>part_text = None,
        inlineData =
          Some \<lparr>blob_data =
                  (if CHR '','' \<in> set (data img)
                   then Some (takeWhile (\<lambda>x. x \<noteq> CHR '','')
                                (tl (dropWhile (\<lambda>x. x \<noteq> CHR '','') (data img))))
                   else None),
                blob_mimeType = Some (mimeType img)\<rparr>\<rparr>
   \<and> fst (generateStrategy pf reasoning req) = [strategy_request req]
   \<and> contents (strategy_request req)
       = text_part (strategy_prompt req) # map inline_part (subjectImages req)
   \<and> fst (generateThumbnailImage pf imaging design r imgs)
       = (case promptText pf design r of Inl e \<Rightarrow> [] | Inr p \<Rightarrow> [image_request r p imgs])
   \<and> contents (image_request r p imgs) = text_part p # map inline_part imgs"
proof -
  have "inline_part img
     = \<lparr>part_text = None,
        inlineData =
          Some \<lparr>blob_data =
                  (if CHR '','' \<in> set (data img)
                   then Some (takeWhile (\<lambda>x. x \<noteq> CHR '','')
                                (tl (dropWhile (\<lambda>x. x \<noteq> CHR '','') (data img))))
                   else None),
                blob_mimeType = Some (mimeType img)\<rparr>\<rparr>"
    unfolding inline_part_def by (simp only: index_split_on)
  moreover have "fst (generateStrategy pf reasoning req) = [strategy_request req]"
    by (simp add: generateStrategy_def)
  moreover have "contents (strategy_request req)
       = text_part (strategy_prompt req) # map inline_part (subjectImages req)"
    by (simp add: strategy_request_def)
  moreover have "fst (generateThumbnailImage pf imaging design r imgs)
       = (case promptText pf design r of Inl e \<Rightarrow> [] | Inr p \<Rightarrow> [image_request r p imgs])"
    by (simp add: fst_generateThumbnailImage render_try_def split: sum.splits)
  moreover have "contents (image_request r p imgs) = text_part p # map inline_part imgs"
    by (simp add: image_request_def)
  ultimately show ?thesis by blast
qed

text \<open>
  Claim C10 as stated fails: for data with two commas the payload stops at the second comma
  and is not the whole substring after the first.
\<close>

theorem payload_stops_at_second_comma:
  "inlineData (inline_part \<lparr>data = ''data:text/plain,a,b'', mimeType = ''text/plain''\<rparr>)
     = Some \<lparr>blob_data = Some ''a'', blob_mimeType = Some ''text/plain''\<rparr>
   \<and> tl (dropWhile (\<lambda>x. x \<noteq> CHR '','') ''data:text/plain,a,b'') = ''a,b''"
  by (simp add: inline_part_def)

end
